theory Spec2Isabelle
  imports Main
begin

section \<open>Values, dictionaries, errors\<close>

text \<open>
  Stored records are Python dictionaries from field names to scalar values. A value is
  \<open>None\<close>, an unbounded integer or a string; a dictionary is a map from keys to values.
\<close>

datatype val = VNone | VInt int | VStr string

type_synonym pydict = "string \<rightharpoonup> val"

text \<open>
  Every \<open>raise\<close> of the source is a value: an \<open>HTTPException\<close> with its status code,
  detail and headers, or Python's \<open>KeyError\<close> for a subscript on a missing key.
\<close>

datatype error =
    HTTPException (status_code: int) (detail: string) (headers: "(string \<times> string) list")
  | KeyError string

abbreviation HTTP_401_UNAUTHORIZED :: int where "HTTP_401_UNAUTHORIZED \<equiv> 401"
abbreviation HTTP_404_NOT_FOUND :: int where "HTTP_404_NOT_FOUND \<equiv> 404"

definition getitem :: "pydict \<Rightarrow> string \<Rightarrow> error + val" where
  "getitem d k = (case d k of None \<Rightarrow> Inl (KeyError k) | Some v \<Rightarrow> Inr v)"

section \<open>Token service\<close>

subsection \<open>Configuration\<close>

type_synonym environ = "string \<rightharpoonup> string"

definition SECRET_KEY :: "environ \<Rightarrow> string" where
  "SECRET_KEY env =
     (case env ''JWT_SECRET_KEY'' of
        None \<Rightarrow> ''your-super-secret-jwt-key-for-fastapi''
      | Some k \<Rightarrow> k)"

definition ALGORITHM :: string where
  "ALGORITHM = ''HS256''"

definition ACCESS_TOKEN_EXPIRE_MINUTES :: int where
  "ACCESS_TOKEN_EXPIRE_MINUTES = 60"

definition VALID_USERNAME :: string where
  "VALID_USERNAME = ''admin''"

definition VALID_PASSWORD :: string where
  "VALID_PASSWORD = ''password123''"

text \<open>Time is counted in whole seconds; \<open>timedelta(minutes=m)\<close> is \<open>m * 60\<close> of them.\<close>

definition timedelta_minutes :: "int \<Rightarrow> int" where
  "timedelta_minutes m = m * 60"

subsection \<open>Signed claims\<close>

text \<open>
  Modelled from the spec: the functions \<open>jwt.encode\<close> and \<open>jwt.decode\<close> and the exception
  \<open>JWTError\<close> belong to the signing library, which is not part of the source. The spec
  describes a token as a signed string encoding a subject and an expiry, where
  validation fails if the signature is invalid, the token is malformed or the expiry has
  passed. A token is therefore modelled symbolically: either a claims set together with
  the algorithm and key that signed it, or a string that does not parse. The signature
  is valid for a key exactly when that key signed the token. An expiry has passed when it
  is strictly before the validation time.
\<close>

record claims =
  claim_sub :: "string option"
  claim_exp :: "int option"

datatype jwt = JWT (jwt_alg: string) (jwt_key: string) (jwt_claims: claims) | Malformed string

datatype jwt_error = JWTError

definition jwt_encode :: "claims \<Rightarrow> string \<Rightarrow> string \<Rightarrow> jwt" where
  "jwt_encode to_encode key algorithm = JWT algorithm key to_encode"

definition jwt_decode :: "jwt \<Rightarrow> string \<Rightarrow> string list \<Rightarrow> int \<Rightarrow> jwt_error + claims" where
  "jwt_decode token key algorithms now =
     (case token of
        Malformed _ \<Rightarrow> Inl JWTError
      | JWT alg k payload \<Rightarrow>
          if \<not> List.member algorithms alg then Inl JWTError
          else if k \<noteq> key then Inl JWTError
          else (case claim_exp payload of
                  None \<Rightarrow> Inr payload
                | Some e \<Rightarrow> if e < now then Inl JWTError else Inr payload))"

subsection \<open>Issuing and validating\<close>

text \<open>
  \<open>create_access_token\<close> copies the data, adds the expiry and signs. A \<open>timedelta\<close> of
  zero is falsy in Python, so it selects the default window like an absent one.
\<close>

definition create_access_token :: "environ \<Rightarrow> int \<Rightarrow> claims \<Rightarrow> int option \<Rightarrow> jwt" where
  "create_access_token env now data expires_delta =
     (let to_encode = data;
          expire = (case expires_delta of
                      None \<Rightarrow> now + timedelta_minutes ACCESS_TOKEN_EXPIRE_MINUTES
                    | Some d \<Rightarrow>
                        if d \<noteq> 0 then now + d
                        else now + timedelta_minutes ACCESS_TOKEN_EXPIRE_MINUTES);
          to_encode = to_encode\<lparr>claim_exp := Some expire\<rparr>;
          encoded_jwt = jwt_encode to_encode (SECRET_KEY env) ALGORITHM
      in encoded_jwt)"

definition credentials_exception :: error where
  "credentials_exception =
     HTTPException HTTP_401_UNAUTHORIZED ''Could not validate credentials''
       [(''WWW-Authenticate'', ''Bearer'')]"

definition get_current_user :: "environ \<Rightarrow> int \<Rightarrow> jwt \<Rightarrow> error + string" where
  "get_current_user env now token =
     (case jwt_decode token (SECRET_KEY env) [ALGORITHM] now of
        Inl JWTError \<Rightarrow> Inl credentials_exception
      | Inr payload \<Rightarrow>
          (case claim_sub payload of
             None \<Rightarrow> Inl credentials_exception
           | Some username \<Rightarrow>
               if username \<noteq> VALID_USERNAME then Inl credentials_exception
               else Inr username))"

text \<open>The body of the token response: the \<open>Token\<close> model of the source.\<close>

record Token =
  access_token :: jwt
  token_type :: string

definition login_for_access_token :: "environ \<Rightarrow> int \<Rightarrow> string \<Rightarrow> string \<Rightarrow> error + Token" where
  "login_for_access_token env now username password =
     (if username \<noteq> VALID_USERNAME \<or> password \<noteq> VALID_PASSWORD then
        Inl (HTTPException HTTP_401_UNAUTHORIZED ''Incorrect username or password''
               [(''WWW-Authenticate'', ''Bearer'')])
      else
        let access_token_expires = timedelta_minutes ACCESS_TOKEN_EXPIRE_MINUTES;
            access_token = create_access_token env now
                             \<lparr>claim_sub = Some username, claim_exp = None\<rparr>
                             (Some access_token_expires)
        in Inr \<lparr>access_token = access_token, token_type = ''bearer''\<rparr>)"

section \<open>Entity store\<close>

subsection \<open>Request models\<close>

text \<open>
  A request body is a validated model object: its field values, and the set of fields
  the request gave explicitly (\<open>fields_set\<close>), which \<open>dict(exclude_unset=True)\<close>
  consults. The field \<open>id\<close> is optional with default \<open>None\<close>.
\<close>

record Student =
  student_id_field :: "int option"
  major :: string
  email :: string
  student_fields_set :: "string set"

record Course =
  course_id_field :: "int option"
  title :: string
  code :: string
  credits :: int
  course_fields_set :: "string set"

record Enrollment =
  enrollment_id_field :: "int option"
  student_id :: int
  course_id :: int

definition optional_int :: "int option \<Rightarrow> val" where
  "optional_int x = (case x of None \<Rightarrow> VNone | Some i \<Rightarrow> VInt i)"

definition Student_dict :: "Student \<Rightarrow> pydict" where
  "Student_dict m =
     [''id'' \<mapsto> optional_int (student_id_field m),
      ''major'' \<mapsto> VStr (major m),
      ''email'' \<mapsto> VStr (email m)]"

definition Course_dict :: "Course \<Rightarrow> pydict" where
  "Course_dict m =
     [''id'' \<mapsto> optional_int (course_id_field m),
      ''title'' \<mapsto> VStr (title m),
      ''code'' \<mapsto> VStr (code m),
      ''credits'' \<mapsto> VInt (credits m)]"

definition Enrollment_dict :: "Enrollment \<Rightarrow> pydict" where
  "Enrollment_dict m =
     [''id'' \<mapsto> optional_int (enrollment_id_field m),
      ''student_id'' \<mapsto> VInt (student_id m),
      ''course_id'' \<mapsto> VInt (course_id m)]"

definition Student_dict_exclude_unset :: "Student \<Rightarrow> pydict" where
  "Student_dict_exclude_unset m = Student_dict m |` student_fields_set m"

definition Course_dict_exclude_unset :: "Course \<Rightarrow> pydict" where
  "Course_dict_exclude_unset m = Course_dict m |` course_fields_set m"

subsection \<open>State\<close>

record state =
  students_db :: "pydict list"
  courses_db :: "pydict list"
  enrollments_db :: "pydict list"
  next_student_id :: int
  next_course_id :: int
  next_enrollment_id :: int

definition init_state :: state where
  "init_state =
     \<lparr>students_db = [], courses_db = [], enrollments_db = [],
      next_student_id = 1, next_course_id = 1, next_enrollment_id = 1\<rparr>"

subsection \<open>Scans over a collection\<close>

text \<open>
  The handlers scan a list of dictionaries and read \<open>record["id"]\<close> of each element they
  visit; the subscript raises \<open>KeyError\<close> on a dictionary without that key.

  \<open>find_by_id\<close> is the loop \<open>for r in db: if r["id"] == i: return r\<close>; the result
  \<open>None\<close> means the loop ran to its end.
\<close>

fun find_by_id :: "pydict list \<Rightarrow> int \<Rightarrow> error + pydict option" where
  "find_by_id [] i = Inr None"
| "find_by_id (r # rs) i =
     (case getitem r ''id'' of
        Inl e \<Rightarrow> Inl e
      | Inr v \<Rightarrow> if v = VInt i then Inr (Some r) else find_by_id rs i)"

text \<open>\<open>any_id\<close> is \<open>any(r["id"] == i for r in db)\<close>, which stops at the first match.\<close>

fun any_id :: "pydict list \<Rightarrow> int \<Rightarrow> error + bool" where
  "any_id [] i = Inr False"
| "any_id (r # rs) i =
     (case getitem r ''id'' of
        Inl e \<Rightarrow> Inl e
      | Inr v \<Rightarrow> if v = VInt i then Inr True else any_id rs i)"

text \<open>\<open>without_id\<close> is the comprehension \<open>[r for r in db if r["id"] != i]\<close>.\<close>

fun without_id :: "pydict list \<Rightarrow> int \<Rightarrow> error + pydict list" where
  "without_id [] i = Inr []"
| "without_id (r # rs) i =
     (case getitem r ''id'' of
        Inl e \<Rightarrow> Inl e
      | Inr v \<Rightarrow>
          (case without_id rs i of
             Inl e \<Rightarrow> Inl e
           | Inr rs' \<Rightarrow> Inr (if v \<noteq> VInt i then r # rs' else rs')))"

text \<open>
  \<open>update_by_id\<close> is the loop of the two update handlers:
  \<open>for idx, r in enumerate(db): if r["id"] == i: db[idx].update(updated_data); return db[idx]\<close>.
  It returns the new list and the updated dictionary, or \<open>None\<close> when no element matched.
\<close>

fun update_by_id :: "pydict list \<Rightarrow> int \<Rightarrow> pydict \<Rightarrow> error + (pydict list \<times> pydict) option" where
  "update_by_id [] i updated_data = Inr None"
| "update_by_id (r # rs) i updated_data =
     (case getitem r ''id'' of
        Inl e \<Rightarrow> Inl e
      | Inr v \<Rightarrow>
          if v = VInt i then Inr (Some ((r ++ updated_data) # rs, r ++ updated_data))
          else (case update_by_id rs i updated_data of
                  Inl e \<Rightarrow> Inl e
                | Inr None \<Rightarrow> Inr None
                | Inr (Some (rs', r')) \<Rightarrow> Inr (Some (r # rs', r'))))"

text \<open>\<open>if 'id' in d: del d['id']\<close>\<close>

definition drop_id :: "pydict \<Rightarrow> pydict" where
  "drop_id updated_data =
     (if updated_data ''id'' \<noteq> None then updated_data(''id'' := None) else updated_data)"

subsection \<open>Rendering an integer in an f-string\<close>

definition digit_char :: "nat \<Rightarrow> char" where
  "digit_char d = ''0123456789'' ! d"

fun str_nat :: "nat \<Rightarrow> string" where
  "str_nat n = (if n < 10 then [digit_char n] else str_nat (n div 10) @ [digit_char (n mod 10)])"

definition str_int :: "int \<Rightarrow> string" where
  "str_int i = (if i < 0 then ''-'' @ str_nat (nat (- i)) else str_nat (nat i))"

subsection \<open>Handlers\<close>

datatype response =
    Record pydict
  | Records "pydict list"
  | TokenResponse Token
  | NoContent

type_synonym result = "(error + response) \<times> state"

definition home :: "response" where
  "home = Record [''message'' \<mapsto> VStr ''Welcome to the College Management API!'']"

definition get_students :: "state \<Rightarrow> result" where
  "get_students st = (Inr (Records (students_db st)), st)"

definition add_student :: "state \<Rightarrow> Student \<Rightarrow> result" where
  "add_student st student_data =
     (let new_student = Student_dict student_data;
          new_student = new_student(''id'' \<mapsto> VInt (next_student_id st));
          st = st\<lparr>students_db := students_db st @ [new_student]\<rparr>;
          st = st\<lparr>next_student_id := next_student_id st + 1\<rparr>
      in (Inr (Record new_student), st))"

definition get_student :: "state \<Rightarrow> int \<Rightarrow> result" where
  "get_student st student_id' =
     (case find_by_id (students_db st) student_id' of
        Inl e \<Rightarrow> (Inl e, st)
      | Inr (Some student) \<Rightarrow> (Inr (Record student), st)
      | Inr None \<Rightarrow> (Inl (HTTPException HTTP_404_NOT_FOUND ''Student not found'' []), st))"

definition update_student :: "state \<Rightarrow> int \<Rightarrow> Student \<Rightarrow> result" where
  "update_student st student_id' student_data =
     (case update_by_id (students_db st) student_id'
             (drop_id (Student_dict_exclude_unset student_data)) of
        Inl e \<Rightarrow> (Inl e, st)
      | Inr (Some (db, student)) \<Rightarrow> (Inr (Record student), st\<lparr>students_db := db\<rparr>)
      | Inr None \<Rightarrow> (Inl (HTTPException HTTP_404_NOT_FOUND ''Student not found'' []), st))"

definition delete_student :: "state \<Rightarrow> int \<Rightarrow> result" where
  "delete_student st student_id' =
     (let initial_len = length (students_db st) in
      case without_id (students_db st) student_id' of
        Inl e \<Rightarrow> (Inl e, st)
      | Inr db \<Rightarrow>
          (let st = st\<lparr>students_db := db\<rparr> in
           if length (students_db st) = initial_len
           then (Inl (HTTPException HTTP_404_NOT_FOUND ''Student not found'' []), st)
           else (Inr NoContent, st)))"

definition get_courses :: "state \<Rightarrow> result" where
  "get_courses st = (Inr (Records (courses_db st)), st)"

definition add_course :: "state \<Rightarrow> Course \<Rightarrow> result" where
  "add_course st course_data =
     (let new_course = Course_dict course_data;
          new_course = new_course(''id'' \<mapsto> VInt (next_course_id st));
          st = st\<lparr>courses_db := courses_db st @ [new_course]\<rparr>;
          st = st\<lparr>next_course_id := next_course_id st + 1\<rparr>
      in (Inr (Record new_course), st))"

definition get_course :: "state \<Rightarrow> int \<Rightarrow> result" where
  "get_course st course_id' =
     (case find_by_id (courses_db st) course_id' of
        Inl e \<Rightarrow> (Inl e, st)
      | Inr (Some course) \<Rightarrow> (Inr (Record course), st)
      | Inr None \<Rightarrow> (Inl (HTTPException HTTP_404_NOT_FOUND ''Course not found'' []), st))"

definition update_course :: "state \<Rightarrow> int \<Rightarrow> Course \<Rightarrow> result" where
  "update_course st course_id' course_data =
     (case update_by_id (courses_db st) course_id'
             (drop_id (Course_dict_exclude_unset course_data)) of
        Inl e \<Rightarrow> (Inl e, st)
      | Inr (Some (db, course)) \<Rightarrow> (Inr (Record course), st\<lparr>courses_db := db\<rparr>)
      | Inr None \<Rightarrow> (Inl (HTTPException HTTP_404_NOT_FOUND ''Course not found'' []), st))"

definition delete_course :: "state \<Rightarrow> int \<Rightarrow> result" where
  "delete_course st course_id' =
     (let initial_len = length (courses_db st) in
      case without_id (courses_db st) course_id' of
        Inl e \<Rightarrow> (Inl e, st)
      | Inr db \<Rightarrow>
          (let st = st\<lparr>courses_db := db\<rparr> in
           if length (courses_db st) = initial_len
           then (Inl (HTTPException HTTP_404_NOT_FOUND ''Course not found'' []), st)
           else (Inr NoContent, st)))"

definition get_enrollments :: "state \<Rightarrow> result" where
  "get_enrollments st = (Inr (Records (enrollments_db st)), st)"

definition add_enrollment :: "state \<Rightarrow> Enrollment \<Rightarrow> result" where
  "add_enrollment st enrollment_data =
     (case any_id (students_db st) (student_id enrollment_data) of
        Inl e \<Rightarrow> (Inl e, st)
      | Inr student_exists \<Rightarrow>
     (case any_id (courses_db st) (course_id enrollment_data) of
        Inl e \<Rightarrow> (Inl e, st)
      | Inr course_exists \<Rightarrow>
          if \<not> student_exists then
            (Inl (HTTPException HTTP_404_NOT_FOUND
                    (''Student with ID '' @ str_int (student_id enrollment_data) @ '' not found'')
                    []), st)
          else if \<not> course_exists then
            (Inl (HTTPException HTTP_404_NOT_FOUND
                    (''Course with ID '' @ str_int (course_id enrollment_data) @ '' not found'')
                    []), st)
          else
            (let new_enrollment = Enrollment_dict enrollment_data;
                 new_enrollment = new_enrollment(''id'' \<mapsto> VInt (next_enrollment_id st));
                 st = st\<lparr>enrollments_db := enrollments_db st @ [new_enrollment]\<rparr>;
                 st = st\<lparr>next_enrollment_id := next_enrollment_id st + 1\<rparr>
             in (Inr (Record new_enrollment), st))))"

definition get_enrollment :: "state \<Rightarrow> int \<Rightarrow> result" where
  "get_enrollment st enrollment_id =
     (case find_by_id (enrollments_db st) enrollment_id of
        Inl e \<Rightarrow> (Inl e, st)
      | Inr (Some enrollment) \<Rightarrow> (Inr (Record enrollment), st)
      | Inr None \<Rightarrow> (Inl (HTTPException HTTP_404_NOT_FOUND ''Enrollment not found'' []), st))"

definition delete_enrollment :: "state \<Rightarrow> int \<Rightarrow> result" where
  "delete_enrollment st enrollment_id =
     (let initial_len = length (enrollments_db st) in
      case without_id (enrollments_db st) enrollment_id of
        Inl e \<Rightarrow> (Inl e, st)
      | Inr db \<Rightarrow>
          (let st = st\<lparr>enrollments_db := db\<rparr> in
           if length (enrollments_db st) = initial_len
           then (Inl (HTTPException HTTP_404_NOT_FOUND ''Enrollment not found'' []), st)
           else (Inr NoContent, st)))"

section \<open>Request router and auth gate\<close>

datatype operation =
    Home
  | Login string string
  | GetStudents
  | AddStudent Student
  | GetStudent int
  | UpdateStudent int Student
  | DeleteStudent int
  | GetCourses
  | AddCourse Course
  | GetCourse int
  | UpdateCourse int Course
  | DeleteCourse int
  | GetEnrollments
  | AddEnrollment Enrollment
  | GetEnrollment int
  | DeleteEnrollment int

text \<open>
  A request arrives at a time, may present a bearer token in its \<open>Authorization\<close> header,
  and names an operation with its decoded arguments.
\<close>

record request =
  at_time :: int
  bearer :: "jwt option"
  req_op :: operation

text \<open>
  Modelled from the spec: \<open>OAuth2PasswordBearer\<close> and the resolution of
  \<open>Depends(get_current_user)\<close> belong to the web framework, which is not part of the
  source. The spec has the token presented as a bearer credential, a request without a
  token answered with 401, and the gate rejecting with \<open>Unauthorized\<close> and a challenge
  hint before it invokes the operation.
\<close>

definition oauth2_scheme :: "jwt option \<Rightarrow> error + jwt" where
  "oauth2_scheme authorization =
     (case authorization of
        None \<Rightarrow> Inl (HTTPException HTTP_401_UNAUTHORIZED ''Not authenticated''
                       [(''WWW-Authenticate'', ''Bearer'')])
      | Some token \<Rightarrow> Inr token)"

definition authenticate :: "environ \<Rightarrow> int \<Rightarrow> jwt option \<Rightarrow> error + string" where
  "authenticate env now authorization =
     (case oauth2_scheme authorization of
        Inl e \<Rightarrow> Inl e
      | Inr token \<Rightarrow> get_current_user env now token)"

definition depends_current_user :: "environ \<Rightarrow> request \<Rightarrow> state \<Rightarrow> result \<Rightarrow> result" where
  "depends_current_user env rq st body =
     (case authenticate env (at_time rq) (bearer rq) of
        Inl e \<Rightarrow> (Inl e, st)
      | Inr current_user \<Rightarrow> body)"

definition handle :: "environ \<Rightarrow> state \<Rightarrow> request \<Rightarrow> result" where
  "handle env st rq =
     (case req_op rq of
        Home \<Rightarrow> (Inr home, st)
      | Login username password \<Rightarrow>
          (case login_for_access_token env (at_time rq) username password of
             Inl e \<Rightarrow> (Inl e, st)
           | Inr t \<Rightarrow> (Inr (TokenResponse t), st))
      | GetStudents \<Rightarrow> depends_current_user env rq st (get_students st)
      | AddStudent student_data \<Rightarrow> depends_current_user env rq st (add_student st student_data)
      | GetStudent i \<Rightarrow> depends_current_user env rq st (get_student st i)
      | UpdateStudent i student_data \<Rightarrow>
          depends_current_user env rq st (update_student st i student_data)
      | DeleteStudent i \<Rightarrow> depends_current_user env rq st (delete_student st i)
      | GetCourses \<Rightarrow> depends_current_user env rq st (get_courses st)
      | AddCourse course_data \<Rightarrow> depends_current_user env rq st (add_course st course_data)
      | GetCourse i \<Rightarrow> depends_current_user env rq st (get_course st i)
      | UpdateCourse i course_data \<Rightarrow>
          depends_current_user env rq st (update_course st i course_data)
      | DeleteCourse i \<Rightarrow> depends_current_user env rq st (delete_course st i)
      | GetEnrollments \<Rightarrow> depends_current_user env rq st (get_enrollments st)
      | AddEnrollment enrollment_data \<Rightarrow>
          depends_current_user env rq st (add_enrollment st enrollment_data)
      | GetEnrollment i \<Rightarrow> depends_current_user env rq st (get_enrollment st i)
      | DeleteEnrollment i \<Rightarrow> depends_current_user env rq st (delete_enrollment st i))"

text \<open>The state after a sequence of requests, served one after the other.\<close>

fun run :: "environ \<Rightarrow> state \<Rightarrow> request list \<Rightarrow> state" where
  "run env st [] = st"
| "run env st (rq # rqs) = run env (snd (handle env st rq)) rqs"

section \<open>Vocabulary of the properties\<close>

text \<open>The ids stored in a collection, in order: the value under \<open>"id"\<close> of each record.\<close>

definition ids_of :: "pydict list \<Rightarrow> val option list" where
  "ids_of db = map (\<lambda>r. r ''id'') db"

text \<open>
  A collection is well formed below a counter value when every record carries an
  integer id smaller than the counter and the ids are pairwise different.
\<close>

definition int_id_below :: "int \<Rightarrow> pydict \<Rightarrow> bool" where
  "int_id_below n r = (case r ''id'' of Some (VInt i) \<Rightarrow> i < n | _ \<Rightarrow> False)"

definition wf_db :: "pydict list \<Rightarrow> int \<Rightarrow> bool" where
  "wf_db db n = (list_all (int_id_below n) db \<and> distinct (ids_of db))"

definition wf_state :: "state \<Rightarrow> bool" where
  "wf_state st =
     (wf_db (students_db st) (next_student_id st) \<and>
      wf_db (courses_db st) (next_course_id st) \<and>
      wf_db (enrollments_db st) (next_enrollment_id st))"

text \<open>The three collections, to speak of each collection's counter and operations.\<close>

datatype collection = Students | Courses | Enrollments

fun counter :: "collection \<Rightarrow> state \<Rightarrow> int" where
  "counter Students st = next_student_id st"
| "counter Courses st = next_course_id st"
| "counter Enrollments st = next_enrollment_id st"

fun created_in :: "operation \<Rightarrow> collection option" where
  "created_in (AddStudent _) = Some Students"
| "created_in (AddCourse _) = Some Courses"
| "created_in (AddEnrollment _) = Some Enrollments"
| "created_in _ = None"

fun is_delete :: "operation \<Rightarrow> bool" where
  "is_delete (DeleteStudent _) = True"
| "is_delete (DeleteCourse _) = True"
| "is_delete (DeleteEnrollment _) = True"
| "is_delete _ = False"



text \<open>
  What one served request created in a collection: the operation and the record it
  returned when the request is a create on that collection and it succeeded, nothing
  otherwise.
\<close>

definition create_result :: "collection \<Rightarrow> request \<Rightarrow> error + response \<Rightarrow> (operation \<times> pydict) list" where
  "create_result c rq r =
     (case r of
        Inr (Record a) \<Rightarrow> if created_in (req_op rq) = Some c then [(req_op rq, a)] else []
      | _ \<Rightarrow> [])"


section \<open>A worked scenario\<close>

text \<open>
  The start of the end-to-end scenario: with a token for the account that has not
  expired, one student and one course are created on a fresh store.
\<close>

definition admin_token :: jwt where
  "admin_token =
     JWT ''HS256'' ''your-super-secret-jwt-key-for-fastapi''
       \<lparr>claim_sub = Some ''admin'', claim_exp = Some 3600\<rparr>"

definition as_admin :: "operation \<Rightarrow> request" where
  "as_admin operation = \<lparr>at_time = 0, bearer = Some admin_token, req_op = operation\<rparr>"

definition cs_student :: Student where
  "cs_student =
     \<lparr>student_id_field = None, major = ''CS'', email = ''a@b.com'',
      student_fields_set = {''major'', ''email''}\<rparr>"

definition algebra_course :: Course where
  "algebra_course =
     \<lparr>course_id_field = None, title = ''Algebra'', code = ''MATH101'', credits = 3,
      course_fields_set = {''title'', ''code'', ''credits''}\<rparr>"

definition scenario_requests :: "request list" where
  "scenario_requests = [as_admin (AddStudent cs_student), as_admin (AddCourse algebra_course)]"

definition scenario_state :: state where
  "scenario_state = run Map.empty init_state scenario_requests"


section \<open>Lemmas\<close>

subsection \<open>Scans on well-formed collections\<close>

lemma int_id_belowD: "int_id_below n r \<Longrightarrow> \<exists>i. r ''id'' = Some (VInt i) \<and> i < n"
  by (auto simp: int_id_below_def split: option.splits val.splits)

lemma any_id_wf:
  "list_all (int_id_below n) db \<Longrightarrow> any_id db i = Inr (Some (VInt i) \<in> set (ids_of db))"
  by (induction db) (auto simp: ids_of_def getitem_def dest!: int_id_belowD)

lemma without_id_wf:
  "list_all (int_id_below n) db \<Longrightarrow>
   without_id db i = Inr (filter (\<lambda>r. r ''id'' \<noteq> Some (VInt i)) db)"
  by (induction db) (auto simp: getitem_def dest!: int_id_belowD)

lemma find_by_id_wf:
  "list_all (int_id_below n) db \<Longrightarrow>
   find_by_id db i = Inr (find (\<lambda>r. r ''id'' = Some (VInt i)) db)"
  by (induction db) (auto simp: getitem_def dest!: int_id_belowD)

lemma update_by_id_wf:
  "list_all (int_id_below n) (pre @ r # post) \<Longrightarrow> Some (VInt i) \<notin> set (ids_of pre) \<Longrightarrow>
   r ''id'' = Some (VInt i) \<Longrightarrow>
   update_by_id (pre @ r # post) i u = Inr (Some (pre @ (r ++ u) # post, r ++ u))"
  by (induction pre) (auto simp: getitem_def ids_of_def dest!: int_id_belowD)

lemma update_by_id_none:
  "list_all (int_id_below n) db \<Longrightarrow> Some (VInt i) \<notin> set (ids_of db) \<Longrightarrow>
   update_by_id db i u = Inr None"
  by (induction db) (auto simp: getitem_def ids_of_def dest!: int_id_belowD)

subsection \<open>Preservation of well-formedness\<close>

lemma int_id_below_iff: "int_id_below n r \<longleftrightarrow> (\<exists>i. r ''id'' = Some (VInt i) \<and> i < n)"
  by (auto simp: int_id_below_def split: option.splits val.splits)

lemma wf_db_append:
  assumes wf: "wf_db db n"
  shows "wf_db (db @ [d(''id'' \<mapsto> VInt n)]) (n + 1)"
proof -
  have below: "list_all (int_id_below (n + 1)) db"
    using wf unfolding wf_db_def list_all_iff int_id_below_iff by fastforce
  have fresh: "Some (VInt n) \<notin> set (ids_of db)"
    using wf unfolding wf_db_def list_all_iff ids_of_def int_id_below_iff by fastforce
  show ?thesis
    using wf below fresh by (simp add: wf_db_def ids_of_def int_id_below_iff)
qed

lemma wf_db_filter: "wf_db db n \<Longrightarrow> wf_db (filter P db) n"
  by (simp add: wf_db_def ids_of_def list_all_iff distinct_map_filter)

lemma drop_id_id [simp]: "drop_id u ''id'' = None"
  by (simp add: drop_id_def)

lemma update_by_id_ids:
  "update_by_id db i (drop_id u) = Inr (Some (db', r')) \<Longrightarrow> ids_of db' = ids_of db"
  by (induction db arbitrary: db')
     (auto simp: getitem_def ids_of_def map_add_def split: option.splits if_splits sum.splits)

lemma update_by_id_below:
  "update_by_id db i (drop_id u) = Inr (Some (db', r')) \<Longrightarrow>
   list_all (int_id_below n) db \<Longrightarrow> list_all (int_id_below n) db'"
  by (induction db arbitrary: db')
     (auto simp: getitem_def int_id_below_def map_add_def split: option.splits if_splits sum.splits)

lemma wf_db_update:
  "update_by_id db i (drop_id u) = Inr (Some (db', r')) \<Longrightarrow> wf_db db n \<Longrightarrow> wf_db db' n"
  by (simp add: wf_db_def update_by_id_ids update_by_id_below)

lemma without_id_wf_db: "without_id db i = Inr db' \<Longrightarrow> wf_db db n \<Longrightarrow> wf_db db' n"
  using without_id_wf [of n db i] by (auto simp: wf_db_def wf_db_filter [unfolded wf_db_def])

lemma wf_init: "wf_state init_state"
  by (simp add: wf_state_def wf_db_def init_state_def ids_of_def)

lemma wf_add_student: "wf_state st \<Longrightarrow> wf_state (snd (add_student st p))"
  by (simp add: wf_state_def add_student_def Let_def wf_db_append)

lemma wf_add_course: "wf_state st \<Longrightarrow> wf_state (snd (add_course st p))"
  by (simp add: wf_state_def add_course_def Let_def wf_db_append)

lemma wf_add_enrollment: "wf_state st \<Longrightarrow> wf_state (snd (add_enrollment st p))"
  by (auto simp: wf_state_def add_enrollment_def Let_def wf_db_append split: sum.splits)

lemma wf_update_student: "wf_state st \<Longrightarrow> wf_state (snd (update_student st i p))"
  by (auto simp: wf_state_def update_student_def wf_db_update split: sum.splits option.splits)

lemma wf_update_course: "wf_state st \<Longrightarrow> wf_state (snd (update_course st i p))"
  by (auto simp: wf_state_def update_course_def wf_db_update split: sum.splits option.splits)

lemma wf_delete_student: "wf_state st \<Longrightarrow> wf_state (snd (delete_student st i))"
  by (auto simp: wf_state_def delete_student_def Let_def without_id_wf_db split: sum.splits)

lemma wf_delete_course: "wf_state st \<Longrightarrow> wf_state (snd (delete_course st i))"
  by (auto simp: wf_state_def delete_course_def Let_def without_id_wf_db split: sum.splits)

lemma wf_delete_enrollment: "wf_state st \<Longrightarrow> wf_state (snd (delete_enrollment st i))"
  by (auto simp: wf_state_def delete_enrollment_def Let_def without_id_wf_db split: sum.splits)

lemma wf_get_student: "snd (get_student st i) = st"
  by (simp add: get_student_def split: sum.splits option.splits)

lemma wf_get_course: "snd (get_course st i) = st"
  by (simp add: get_course_def split: sum.splits option.splits)

lemma wf_get_enrollment: "snd (get_enrollment st i) = st"
  by (simp add: get_enrollment_def split: sum.splits option.splits)

lemma depends_cases:
  "depends_current_user env rq st body = body \<or>
   (\<exists>e. depends_current_user env rq st body = (Inl e, st))"
  by (simp add: depends_current_user_def split: sum.splits)

lemma snd_depends:
  "snd (depends_current_user env rq st body) = st \<or>
   snd (depends_current_user env rq st body) = snd body"
  using depends_cases [of env rq st body] by auto

lemma wf_handle: "wf_state st \<Longrightarrow> wf_state (snd (handle env st rq))"
proof -
  assume wf: "wf_state st"
  have dep: "\<And>body. wf_state (snd body) \<Longrightarrow> wf_state (snd (depends_current_user env rq st body))"
    using wf snd_depends by metis
  show ?thesis
    by (cases "req_op rq")
       (auto simp: handle_def wf get_students_def get_courses_def get_enrollments_def
          wf_get_student wf_get_course wf_get_enrollment
          intro!: dep wf_add_student wf_add_course wf_add_enrollment wf_update_student
            wf_update_course wf_delete_student wf_delete_course wf_delete_enrollment
          split: sum.splits)
qed

lemma wf_run: "wf_state st \<Longrightarrow> wf_state (run env st rqs)"
  by (induction rqs arbitrary: st) (simp_all add: wf_handle)

lemma wf_reachable: "wf_state (run env init_state rqs)"
  by (simp add: wf_run wf_init)

subsection \<open>Handlers on well-formed states\<close>

lemma wf_state_below:
  "wf_state st \<Longrightarrow> list_all (int_id_below (next_student_id st)) (students_db st)"
  "wf_state st \<Longrightarrow> list_all (int_id_below (next_course_id st)) (courses_db st)"
  "wf_state st \<Longrightarrow> list_all (int_id_below (next_enrollment_id st)) (enrollments_db st)"
  by (simp_all add: wf_state_def wf_db_def)

lemma add_enrollment_wf:
  assumes "wf_state st"
  shows "add_enrollment st e =
    (if Some (VInt (student_id e)) \<notin> set (ids_of (students_db st)) then
       (Inl (HTTPException HTTP_404_NOT_FOUND
               (''Student with ID '' @ str_int (student_id e) @ '' not found'') []), st)
     else if Some (VInt (course_id e)) \<notin> set (ids_of (courses_db st)) then
       (Inl (HTTPException HTTP_404_NOT_FOUND
               (''Course with ID '' @ str_int (course_id e) @ '' not found'') []), st)
     else
       (Inr (Record ((Enrollment_dict e)(''id'' \<mapsto> VInt (next_enrollment_id st)))),
        st\<lparr>enrollments_db :=
              enrollments_db st @ [(Enrollment_dict e)(''id'' \<mapsto> VInt (next_enrollment_id st))],
            next_enrollment_id := next_enrollment_id st + 1\<rparr>))"
  using any_id_wf [OF wf_state_below(1) [OF assms]] any_id_wf [OF wf_state_below(2) [OF assms]]
  by (simp add: add_enrollment_def Let_def)

lemma id_in_ids_of:
  "Some (VInt i) \<in> set (ids_of db) \<longleftrightarrow> (\<exists>r\<in>set db. r ''id'' = Some (VInt i))"
proof
  assume "Some (VInt i) \<in> set (ids_of db)"
  then obtain r where "r \<in> set db" and "Some (VInt i) = r ''id''"
    unfolding ids_of_def set_map by (rule imageE)
  then show "\<exists>r\<in>set db. r ''id'' = Some (VInt i)"
    by (intro bexI [of _ r]) simp_all
next
  assume "\<exists>r\<in>set db. r ''id'' = Some (VInt i)"
  then obtain r where "r \<in> set db" and "r ''id'' = Some (VInt i)"
    by (rule bexE)
  then show "Some (VInt i) \<in> set (ids_of db)"
    unfolding ids_of_def set_map by (metis imageI)
qed

lemma filter_same_length: "length (filter P xs) = length xs \<longleftrightarrow> filter P xs = xs"
proof
  assume len: "length (filter P xs) = length xs"
  have "P x" if "x \<in> set xs" for x
    using length_filter_less [OF that, of P] len by auto
  then show "filter P xs = xs" by (simp add: filter_id_conv)
next
  assume "filter P xs = xs"
  then show "length (filter P xs) = length xs" by simp
qed

lemma keep_all_iff:
  "filter (\<lambda>r. r ''id'' \<noteq> Some (VInt i)) db = db \<longleftrightarrow> Some (VInt i) \<notin> set (ids_of db)"
  unfolding filter_id_conv id_in_ids_of by blast

lemma removed_id_absent:
  "Some (VInt i) \<notin> set (ids_of (filter (\<lambda>r. r ''id'' \<noteq> Some (VInt i)) db))"
  unfolding id_in_ids_of by simp

lemma delete_scan:
  assumes "list_all (int_id_below n) db"
  shows "without_id db i = Inr (filter (\<lambda>r. r ''id'' \<noteq> Some (VInt i)) db)"
    and "length (filter (\<lambda>r. r ''id'' \<noteq> Some (VInt i)) db) = length db \<longleftrightarrow>
         Some (VInt i) \<notin> set (ids_of db)"
proof -
  show "without_id db i = Inr (filter (\<lambda>r. r ''id'' \<noteq> Some (VInt i)) db)"
    using assms by (rule without_id_wf)
  show "length (filter (\<lambda>r. r ''id'' \<noteq> Some (VInt i)) db) = length db \<longleftrightarrow>
        Some (VInt i) \<notin> set (ids_of db)"
    unfolding filter_same_length by (rule keep_all_iff)
qed

lemma delete_student_wf:
  assumes "wf_state st"
  shows "delete_student st i =
    (if Some (VInt i) \<notin> set (ids_of (students_db st))
     then (Inl (HTTPException HTTP_404_NOT_FOUND ''Student not found'' []), st)
     else (Inr NoContent,
           st\<lparr>students_db := filter (\<lambda>r. r ''id'' \<noteq> Some (VInt i)) (students_db st)\<rparr>))"
proof (cases "Some (VInt i) \<in> set (ids_of (students_db st))")
  case True
  then show ?thesis
    using delete_scan [OF wf_state_below(1) [OF assms], of i]
    by (simp add: delete_student_def Let_def)
next
  case False
  then have "filter (\<lambda>r. r ''id'' \<noteq> Some (VInt i)) (students_db st) = students_db st"
    by (simp add: keep_all_iff)
  then show ?thesis
    using False delete_scan [OF wf_state_below(1) [OF assms], of i]
    by (simp add: delete_student_def Let_def)
qed

lemma delete_course_wf:
  assumes "wf_state st"
  shows "delete_course st i =
    (if Some (VInt i) \<notin> set (ids_of (courses_db st))
     then (Inl (HTTPException HTTP_404_NOT_FOUND ''Course not found'' []), st)
     else (Inr NoContent,
           st\<lparr>courses_db := filter (\<lambda>r. r ''id'' \<noteq> Some (VInt i)) (courses_db st)\<rparr>))"
proof (cases "Some (VInt i) \<in> set (ids_of (courses_db st))")
  case True
  then show ?thesis
    using delete_scan [OF wf_state_below(2) [OF assms], of i]
    by (simp add: delete_course_def Let_def)
next
  case False
  then have "filter (\<lambda>r. r ''id'' \<noteq> Some (VInt i)) (courses_db st) = courses_db st"
    by (simp add: keep_all_iff)
  then show ?thesis
    using False delete_scan [OF wf_state_below(2) [OF assms], of i]
    by (simp add: delete_course_def Let_def)
qed

lemma delete_enrollment_wf:
  assumes "wf_state st"
  shows "delete_enrollment st i =
    (if Some (VInt i) \<notin> set (ids_of (enrollments_db st))
     then (Inl (HTTPException HTTP_404_NOT_FOUND ''Enrollment not found'' []), st)
     else (Inr NoContent,
           st\<lparr>enrollments_db := filter (\<lambda>r. r ''id'' \<noteq> Some (VInt i)) (enrollments_db st)\<rparr>))"
proof (cases "Some (VInt i) \<in> set (ids_of (enrollments_db st))")
  case True
  then show ?thesis
    using delete_scan [OF wf_state_below(3) [OF assms], of i]
    by (simp add: delete_enrollment_def Let_def)
next
  case False
  then have "filter (\<lambda>r. r ''id'' \<noteq> Some (VInt i)) (enrollments_db st) = enrollments_db st"
    by (simp add: keep_all_iff)
  then show ?thesis
    using False delete_scan [OF wf_state_below(3) [OF assms], of i]
    by (simp add: delete_enrollment_def Let_def)
qed

lemma update_scan:
  assumes "wf_db (pre @ r # post) n" and "r ''id'' = Some (VInt i)"
  shows "update_by_id (pre @ r # post) i u = Inr (Some (pre @ (r ++ u) # post, r ++ u))"
proof -
  have "Some (VInt i) \<notin> set (ids_of pre)"
    using assms by (auto simp: wf_db_def ids_of_def)
  then show ?thesis
    using assms update_by_id_wf [of n pre r post i u] by (simp add: wf_db_def)
qed

lemma merged_fields:
  fixes d :: pydict
  shows "(r ++ drop_id (d |` F)) ''id'' = r ''id''"
    and "k \<notin> F \<Longrightarrow> (r ++ drop_id (d |` F)) k = r k"
    and "k \<in> F \<Longrightarrow> k \<noteq> ''id'' \<Longrightarrow> d k = Some v \<Longrightarrow> (r ++ drop_id (d |` F)) k = Some v"
  by (simp_all add: map_add_def drop_id_def restrict_map_def)

subsection \<open>The scenario, evaluated\<close>

lemma admin_authenticated: "authenticate Map.empty 0 (Some admin_token) = Inr ''admin''"
  by (simp add: authenticate_def oauth2_scheme_def get_current_user_def jwt_decode_def
        admin_token_def SECRET_KEY_def ALGORITHM_def VALID_USERNAME_def)

lemma as_admin_passes: "depends_current_user Map.empty (as_admin operation) st body = body"
  by (simp add: depends_current_user_def as_admin_def admin_authenticated)

lemma as_admin_op: "req_op (as_admin operation) = operation"
  by (simp add: as_admin_def)

lemma scenario_state_eq:
  "scenario_state =
     \<lparr>students_db = [(Student_dict cs_student)(''id'' \<mapsto> VInt 1)],
      courses_db = [(Course_dict algebra_course)(''id'' \<mapsto> VInt 1)],
      enrollments_db = [],
      next_student_id = 2, next_course_id = 2, next_enrollment_id = 1\<rparr>"
  by (simp add: scenario_state_def scenario_requests_def handle_def as_admin_passes
        add_student_def add_course_def init_state_def Let_def as_admin_op)

lemma scenario_ids:
  "ids_of (students_db scenario_state) = [Some (VInt 1)]"
  "ids_of (courses_db scenario_state) = [Some (VInt 1)]"
  "ids_of (enrollments_db scenario_state) = []"
  by (simp_all add: scenario_state_eq ids_of_def)

lemma scenario_wf: "wf_state scenario_state"
  by (simp add: scenario_state_def wf_reachable)

lemma scenario_dbs:
  "students_db scenario_state = [(Student_dict cs_student)(''id'' \<mapsto> VInt 1)]"
  "courses_db scenario_state = [(Course_dict algebra_course)(''id'' \<mapsto> VInt 1)]"
  "enrollments_db scenario_state = []"
  by (simp_all add: scenario_state_eq)

subsection \<open>A second delete finds nothing\<close>

lemma delete_student_twice:
  assumes "wf_state st" and "delete_student st i = (Inr NoContent, st')"
  shows "delete_student st' i = (Inl (HTTPException HTTP_404_NOT_FOUND ''Student not found'' []), st')"
proof -
  have st': "st' = snd (delete_student st i)"
    using assms(2) by simp
  have wf': "wf_state st'"
    unfolding st' using assms(1) by (rule wf_delete_student)
  have "students_db st' = filter (\<lambda>r. r ''id'' \<noteq> Some (VInt i)) (students_db st)"
    using assms(2) by (auto simp: delete_student_wf [OF assms(1)] split: if_splits)
  then have "Some (VInt i) \<notin> set (ids_of (students_db st'))"
    by (simp add: removed_id_absent)
  then show ?thesis
    by (simp add: delete_student_wf [OF wf'])
qed

lemma delete_course_twice:
  assumes "wf_state st" and "delete_course st i = (Inr NoContent, st')"
  shows "delete_course st' i = (Inl (HTTPException HTTP_404_NOT_FOUND ''Course not found'' []), st')"
proof -
  have st': "st' = snd (delete_course st i)"
    using assms(2) by simp
  have wf': "wf_state st'"
    unfolding st' using assms(1) by (rule wf_delete_course)
  have "courses_db st' = filter (\<lambda>r. r ''id'' \<noteq> Some (VInt i)) (courses_db st)"
    using assms(2) by (auto simp: delete_course_wf [OF assms(1)] split: if_splits)
  then have "Some (VInt i) \<notin> set (ids_of (courses_db st'))"
    by (simp add: removed_id_absent)
  then show ?thesis
    by (simp add: delete_course_wf [OF wf'])
qed

lemma delete_enrollment_twice:
  assumes "wf_state st" and "delete_enrollment st i = (Inr NoContent, st')"
  shows "delete_enrollment st' i =
           (Inl (HTTPException HTTP_404_NOT_FOUND ''Enrollment not found'' []), st')"
proof -
  have st': "st' = snd (delete_enrollment st i)"
    using assms(2) by simp
  have wf': "wf_state st'"
    unfolding st' using assms(1) by (rule wf_delete_enrollment)
  have "enrollments_db st' = filter (\<lambda>r. r ''id'' \<noteq> Some (VInt i)) (enrollments_db st)"
    using assms(2) by (auto simp: delete_enrollment_wf [OF assms(1)] split: if_splits)
  then have "Some (VInt i) \<notin> set (ids_of (enrollments_db st'))"
    by (simp add: removed_id_absent)
  then show ?thesis
    by (simp add: delete_enrollment_wf [OF wf'])
qed

subsection \<open>Updates of a stored record\<close>

lemma update_student_wf:
  assumes "wf_state st" and "students_db st = pre @ r # post" and "r ''id'' = Some (VInt i)"
  shows "update_student st i p =
           (Inr (Record (r ++ drop_id (Student_dict_exclude_unset p))),
            st\<lparr>students_db := pre @ (r ++ drop_id (Student_dict_exclude_unset p)) # post\<rparr>)"
proof -
  have "wf_db (pre @ r # post) (next_student_id st)"
    using assms(1,2) by (simp add: wf_state_def)
  then show ?thesis
    using assms(2,3) by (simp add: update_student_def update_scan)
qed

lemma update_course_wf:
  assumes "wf_state st" and "courses_db st = pre @ r # post" and "r ''id'' = Some (VInt i)"
  shows "update_course st i p =
           (Inr (Record (r ++ drop_id (Course_dict_exclude_unset p))),
            st\<lparr>courses_db := pre @ (r ++ drop_id (Course_dict_exclude_unset p)) # post\<rparr>)"
proof -
  have "wf_db (pre @ r # post) (next_course_id st)"
    using assms(1,2) by (simp add: wf_state_def)
  then show ?thesis
    using assms(2,3) by (simp add: update_course_def update_scan)
qed

subsection \<open>Integer ranges\<close>


subsection \<open>Counters under requests\<close>

lemma counter_simps:
  "counter c (st\<lparr>students_db := sdb\<rparr>) = counter c st"
  "counter c (st\<lparr>courses_db := cdb\<rparr>) = counter c st"
  "counter c (st\<lparr>enrollments_db := edb\<rparr>) = counter c st"
  by (cases c; simp)+

lemma body_counters:
  "counter c (snd (get_students st)) = counter c st"
  "counter c (snd (get_student st i)) = counter c st"
  "counter c (snd (update_student st i p)) = counter c st"
  "counter c (snd (delete_student st i)) = counter c st"
  "counter c (snd (get_courses st)) = counter c st"
  "counter c (snd (get_course st i)) = counter c st"
  "counter c (snd (update_course st i q)) = counter c st"
  "counter c (snd (delete_course st i)) = counter c st"
  "counter c (snd (get_enrollments st)) = counter c st"
  "counter c (snd (get_enrollment st i)) = counter c st"
  "counter c (snd (delete_enrollment st i)) = counter c st"
  by (simp_all add: get_students_def get_student_def update_student_def delete_student_def
        get_courses_def get_course_def update_course_def delete_course_def
        get_enrollments_def get_enrollment_def delete_enrollment_def Let_def counter_simps
        split: sum.splits option.splits prod.splits)

lemma create_counters:
  "counter c (snd (add_student st p)) = (if c = Students then counter c st + 1 else counter c st)"
  "counter c (snd (add_course st q)) = (if c = Courses then counter c st + 1 else counter c st)"
  "counter c (snd (add_enrollment st e)) = counter c st \<or>
   c = Enrollments \<and> counter c (snd (add_enrollment st e)) = counter c st + 1"
  by (cases c; simp add: add_student_def add_course_def add_enrollment_def Let_def
        split: sum.splits)+

lemma handle_counter:
  "counter c (snd (handle env st rq)) = counter c st \<or>
   created_in (req_op rq) = Some c \<and> counter c (snd (handle env st rq)) = counter c st + 1"
proof -
  have dep: "counter c (snd (depends_current_user env rq st body)) = counter c st \<or>
             counter c (snd (depends_current_user env rq st body)) = counter c (snd body)" for body
    using snd_depends [of env rq st body] by auto
  show ?thesis
  proof (cases "req_op rq")
    case Home
    then show ?thesis by (simp add: handle_def)
  next
    case (Login u p)
    then show ?thesis by (simp add: handle_def split: sum.splits)
  next
    case (AddStudent p)
    then show ?thesis
      using dep [of "add_student st p"] create_counters(1) [of c st p]
      by (auto simp: handle_def split: if_splits)
  next
    case (AddCourse q)
    then show ?thesis
      using dep [of "add_course st q"] create_counters(2) [of c st q]
      by (auto simp: handle_def split: if_splits)
  next
    case (AddEnrollment e)
    then show ?thesis
      using dep [of "add_enrollment st e"] create_counters(3) [of c st e]
      by (auto simp: handle_def)
  next
    case GetStudents
    then show ?thesis using dep [of "get_students st"] by (auto simp: handle_def body_counters)
  next
    case (GetStudent i)
    then show ?thesis using dep [of "get_student st i"] by (auto simp: handle_def body_counters)
  next
    case (UpdateStudent i p)
    then show ?thesis
      using dep [of "update_student st i p"] by (auto simp: handle_def body_counters)
  next
    case (DeleteStudent i)
    then show ?thesis
      using dep [of "delete_student st i"] by (auto simp: handle_def body_counters)
  next
    case GetCourses
    then show ?thesis using dep [of "get_courses st"] by (auto simp: handle_def body_counters)
  next
    case (GetCourse i)
    then show ?thesis using dep [of "get_course st i"] by (auto simp: handle_def body_counters)
  next
    case (UpdateCourse i q)
    then show ?thesis
      using dep [of "update_course st i q"] by (auto simp: handle_def body_counters)
  next
    case (DeleteCourse i)
    then show ?thesis
      using dep [of "delete_course st i"] by (auto simp: handle_def body_counters)
  next
    case GetEnrollments
    then show ?thesis
      using dep [of "get_enrollments st"] by (auto simp: handle_def body_counters)
  next
    case (GetEnrollment i)
    then show ?thesis
      using dep [of "get_enrollment st i"] by (auto simp: handle_def body_counters)
  next
    case (DeleteEnrollment i)
    then show ?thesis
      using dep [of "delete_enrollment st i"] by (auto simp: handle_def body_counters)
  qed
qed

lemma handle_counter_mono: "counter c st \<le> counter c (snd (handle env st rq))"
  using handle_counter [of c env st rq] by auto

lemma run_counter_mono: "counter c st \<le> counter c (run env st rqs)"
proof (induction rqs arbitrary: st)
  case Nil
  then show ?case by simp
next
  case (Cons rq rqs)
  have "counter c st \<le> counter c (snd (handle env st rq))"
    by (rule handle_counter_mono)
  also have "\<dots> \<le> counter c (run env (snd (handle env st rq)) rqs)"
    by (rule Cons.IH)
  finally show ?case by simp
qed

lemma delete_keeps_counter:
  "is_delete (req_op rq) \<Longrightarrow> counter c (snd (handle env st rq)) = counter c st"
  using handle_counter [of c env st rq] by (cases "req_op rq") auto

lemma created_record:
  assumes "handle env st rq = (Inr (Record a), st1)" and "created_in (req_op rq) = Some c"
  shows "a ''id'' = Some (VInt (counter c st)) \<and> counter c st1 = counter c st + 1"
proof -
  have body: "body = (Inr (Record a), st1)"
    if "depends_current_user env rq st body = (Inr (Record a), st1)" for body
    using that depends_cases [of env rq st body] by auto
  show ?thesis
  proof (cases "req_op rq")
    case (AddStudent p)
    then have "add_student st p = (Inr (Record a), st1)"
      using assms(1) by (simp add: handle_def body)
    then show ?thesis
      using assms(2) AddStudent by (auto simp: add_student_def Let_def)
  next
    case (AddCourse q)
    then have "add_course st q = (Inr (Record a), st1)"
      using assms(1) by (simp add: handle_def body)
    then show ?thesis
      using assms(2) AddCourse by (auto simp: add_course_def Let_def)
  next
    case (AddEnrollment e)
    then have "add_enrollment st e = (Inr (Record a), st1)"
      using assms(1) by (simp add: handle_def body)
    then show ?thesis
      using assms(2) AddEnrollment
      by (auto simp: add_enrollment_def Let_def split: sum.splits if_splits)
  qed (use assms(2) in simp_all)
qed

subsection \<open>Creates along a sequence of requests\<close>



lemma create_result_record:
  "created_in (req_op rq) = Some c \<Longrightarrow> create_result c rq (Inr (Record a)) = [(req_op rq, a)]"
  by (simp add: create_result_def)









section \<open>Token service properties\<close>

text \<open>
  Claim C7. Token issuance succeeds exactly when the username is the configured account
  name and the password is the configured secret. On any mismatch it fails with one
  fixed 401 error, the same for a bad username and for a bad password.
\<close>

theorem login_iff_valid_credentials:
  "((\<exists>t. login_for_access_token env now username password = Inr t) \<longleftrightarrow>
      (username = VALID_USERNAME \<and> password = VALID_PASSWORD)) \<and>
   (username \<noteq> VALID_USERNAME \<or> password \<noteq> VALID_PASSWORD \<longrightarrow>
      login_for_access_token env now username password =
        Inl (HTTPException HTTP_401_UNAUTHORIZED ''Incorrect username or password''
               [(''WWW-Authenticate'', ''Bearer'')]))"
  by (simp add: login_for_access_token_def Let_def)

theorem login_iff_valid_credentials_witness:
  "login_for_access_token Map.empty 0 ''admin'' ''letmein'' =
     Inl (HTTPException 401 ''Incorrect username or password'' [(''WWW-Authenticate'', ''Bearer'')]) \<and>
   login_for_access_token Map.empty 0 ''root'' ''password123'' =
     Inl (HTTPException 401 ''Incorrect username or password'' [(''WWW-Authenticate'', ''Bearer'')]) \<and>
   (\<exists>t. login_for_access_token Map.empty 0 ''admin'' ''password123'' = Inr t)"
  using login_iff_valid_credentials [of Map.empty 0 "''admin''" "''letmein''"]
        login_iff_valid_credentials [of Map.empty 0 "''root''" "''password123''"]
        login_iff_valid_credentials [of Map.empty 0 "''admin''" "''password123''"]
  by (simp add: VALID_USERNAME_def VALID_PASSWORD_def)

text \<open>
  Claim C2. With the valid credentials, token issuance succeeds, and validating the
  issued token returns the original username: at the time of issue, and at any
  validation time up to the end of the sixty-minute window.
\<close>

theorem issue_then_authenticate:
  assumes "username = VALID_USERNAME" and "password = VALID_PASSWORD"
    and "now' \<le> now + timedelta_minutes ACCESS_TOKEN_EXPIRE_MINUTES"
  shows "\<exists>t. login_for_access_token env now username password = Inr t \<and>
             token_type t = ''bearer'' \<and>
             get_current_user env now' (access_token t) = Inr username"
  using assms
  by (simp add: login_for_access_token_def create_access_token_def jwt_encode_def
        get_current_user_def jwt_decode_def Let_def timedelta_minutes_def
        ACCESS_TOKEN_EXPIRE_MINUTES_def)

theorem issue_then_authenticate_witness:
  "\<exists>t. login_for_access_token Map.empty 1000 ''admin'' ''password123'' = Inr t \<and>
       token_type t = ''bearer'' \<and>
       get_current_user Map.empty 1000 (access_token t) = Inr ''admin''"
  using issue_then_authenticate [of "''admin''" "''password123''" 1000 1000 Map.empty]
  by (simp add: VALID_USERNAME_def VALID_PASSWORD_def timedelta_minutes_def
        ACCESS_TOKEN_EXPIRE_MINUTES_def)

text \<open>
  Claim C5. A token whose encoded expiry lies before the validation time is rejected
  with the 401 credentials error, whatever algorithm and key signed it (so whether or
  not its signature is valid).
\<close>

theorem expired_token_unauthorized:
  assumes "claim_exp payload = Some e" and "e < now"
  shows "get_current_user env now (JWT alg k payload) = Inl credentials_exception \<and>
         status_code credentials_exception = HTTP_401_UNAUTHORIZED"
  using assms
  by (simp add: get_current_user_def jwt_decode_def credentials_exception_def)

theorem expired_token_unauthorized_witness:
  "get_current_user Map.empty 3601
     (JWT ''HS256'' ''your-super-secret-jwt-key-for-fastapi''
        \<lparr>claim_sub = Some ''admin'', claim_exp = Some 3600\<rparr>) =
     Inl (HTTPException 401 ''Could not validate credentials'' [(''WWW-Authenticate'', ''Bearer'')]) \<and>
   get_current_user Map.empty 3600
     (JWT ''HS256'' ''your-super-secret-jwt-key-for-fastapi''
        \<lparr>claim_sub = Some ''admin'', claim_exp = Some 3600\<rparr>) = Inr ''admin'' \<and>
   get_current_user Map.empty 3601
     (JWT ''HS256'' ''some-other-key''
        \<lparr>claim_sub = Some ''admin'', claim_exp = Some 3600\<rparr>) =
     Inl (HTTPException 401 ''Could not validate credentials'' [(''WWW-Authenticate'', ''Bearer'')])"
  using expired_token_unauthorized [of "\<lparr>claim_sub = Some ''admin'', claim_exp = Some 3600\<rparr>" 3600 3601
          Map.empty "''HS256''" "''your-super-secret-jwt-key-for-fastapi''"]
        expired_token_unauthorized [of "\<lparr>claim_sub = Some ''admin'', claim_exp = Some 3600\<rparr>" 3600 3601
          Map.empty "''HS256''" "''some-other-key''"]
  by (simp add: credentials_exception_def get_current_user_def jwt_decode_def SECRET_KEY_def
        ALGORITHM_def VALID_USERNAME_def)

section \<open>Auth gate properties\<close>

text \<open>
  Claim C9. For every operation other than the root greeting and token issuance, a
  request whose token fails authentication is answered with that authentication error,
  a 401 carrying the bearer challenge header, and the state (all collections and
  counters) is returned unchanged.
\<close>

theorem unauthenticated_request_rejected:
  assumes "req_op rq \<noteq> Home" and "\<forall>username password. req_op rq \<noteq> Login username password"
    and "authenticate env (at_time rq) (bearer rq) = Inl e"
  shows "handle env st rq = (Inl e, st) \<and>
         status_code e = HTTP_401_UNAUTHORIZED \<and>
         headers e = [(''WWW-Authenticate'', ''Bearer'')]"
proof -
  have gate: "depends_current_user env rq st body = (Inl e, st)" for body
    using assms(3) by (simp add: depends_current_user_def)
  have rejected: "handle env st rq = (Inl e, st)"
    using assms(1,2) by (cases "req_op rq") (simp_all add: handle_def gate)
  have "e = credentials_exception \<or>
        e = HTTPException HTTP_401_UNAUTHORIZED ''Not authenticated'' [(''WWW-Authenticate'', ''Bearer'')]"
    using assms(3)
    by (auto simp: authenticate_def oauth2_scheme_def get_current_user_def
          split: option.splits sum.splits if_splits jwt_error.splits)
  then show ?thesis
    using rejected by (auto simp: credentials_exception_def)
qed

theorem unauthenticated_request_rejected_witness:
  "handle Map.empty init_state
     \<lparr>at_time = 0, bearer = None,
      req_op = AddStudent \<lparr>student_id_field = None, major = ''CS'', email = ''a@b.com'',
                           student_fields_set = {''major'', ''email''}\<rparr>\<rparr> =
     (Inl (HTTPException 401 ''Not authenticated'' [(''WWW-Authenticate'', ''Bearer'')]), init_state) \<and>
   handle Map.empty init_state
     \<lparr>at_time = 5000,
      bearer = Some (JWT ''HS256'' ''your-super-secret-jwt-key-for-fastapi''
                       \<lparr>claim_sub = Some ''admin'', claim_exp = Some 3600\<rparr>),
      req_op = DeleteCourse 1\<rparr> =
     (Inl (HTTPException 401 ''Could not validate credentials'' [(''WWW-Authenticate'', ''Bearer'')]),
      init_state)"
  using unauthenticated_request_rejected [of
          "\<lparr>at_time = 0, bearer = None,
            req_op = AddStudent \<lparr>student_id_field = None, major = ''CS'', email = ''a@b.com'',
                                 student_fields_set = {''major'', ''email''}\<rparr>\<rparr>"
          Map.empty
          "HTTPException 401 ''Not authenticated'' [(''WWW-Authenticate'', ''Bearer'')]"
          init_state]
        unauthenticated_request_rejected [of
          "\<lparr>at_time = 5000,
            bearer = Some (JWT ''HS256'' ''your-super-secret-jwt-key-for-fastapi''
                       \<lparr>claim_sub = Some ''admin'', claim_exp = Some 3600\<rparr>),
            req_op = DeleteCourse 1\<rparr>"
          Map.empty
          "HTTPException 401 ''Could not validate credentials'' [(''WWW-Authenticate'', ''Bearer'')]"
          init_state]
  by (simp add: authenticate_def oauth2_scheme_def get_current_user_def jwt_decode_def
        SECRET_KEY_def ALGORITHM_def credentials_exception_def)

section \<open>Entity store properties\<close>

text \<open>
  Claim C10. In every reachable state, an enrollment request whose student id and
  course id are both absent from their collections fails with the 404 error that names
  the student id: the student check takes precedence. The state is unchanged.
\<close>

theorem enrollment_both_missing_reports_student:
  assumes "st = run env init_state rqs"
    and "Some (VInt (student_id e)) \<notin> set (ids_of (students_db st))"
    and "Some (VInt (course_id e)) \<notin> set (ids_of (courses_db st))"
  shows "add_enrollment st e =
           (Inl (HTTPException HTTP_404_NOT_FOUND
                   (''Student with ID '' @ str_int (student_id e) @ '' not found'') []), st)"
proof -
  have "wf_state st"
    using assms(1) by (simp add: wf_reachable)
  then show ?thesis
    using assms(2) by (simp add: add_enrollment_wf)
qed

theorem enrollment_both_missing_reports_student_witness:
  "add_enrollment scenario_state \<lparr>enrollment_id_field = None, student_id = 99, course_id = 42\<rparr> =
     (Inl (HTTPException 404 ''Student with ID 99 not found'' []), scenario_state)"
  using enrollment_both_missing_reports_student
          [of scenario_state Map.empty scenario_requests
              "\<lparr>enrollment_id_field = None, student_id = 99, course_id = 42\<rparr>"]
  by (simp add: scenario_state_def [symmetric] scenario_ids str_int_def digit_char_def)

text \<open>
  Claim C3, as stated, fails where both references are missing. With neither student 5
  nor course 7 stored, the request is refused with the error that names student 5; the
  detail does not contain the course id 7 and is not the course error.
\<close>

theorem enrollment_missing_course_counterexample:
  "Some (VInt 7) \<notin> set (ids_of (courses_db scenario_state)) \<and>
   add_enrollment scenario_state \<lparr>enrollment_id_field = None, student_id = 5, course_id = 7\<rparr> =
     (Inl (HTTPException 404 ''Student with ID 5 not found'' []), scenario_state) \<and>
   CHR ''7'' \<notin> set ''Student with ID 5 not found'' \<and>
   add_enrollment scenario_state \<lparr>enrollment_id_field = None, student_id = 5, course_id = 7\<rparr> \<noteq>
     (Inl (HTTPException 404 ''Course with ID 7 not found'' []), scenario_state)"
  by (simp add: add_enrollment_wf [OF scenario_wf] scenario_ids str_int_def digit_char_def)

text \<open>
  Claim C3, amended. In every reachable state an enrollment request with a student id
  that is not stored fails with the 404 error naming that student id; with a stored
  student id and a course id that is not stored it fails with the 404 error naming that
  course id; in both failures the state is unchanged. When both ids are stored, the
  request succeeds, exactly one record (the payload with the counter value as its id) is
  appended to the enrollment collection, and the counter advances by one.
\<close>

theorem add_enrollment_checks_references:
  assumes "st = run env init_state rqs"
  shows "(Some (VInt (student_id e)) \<notin> set (ids_of (students_db st)) \<longrightarrow>
            add_enrollment st e =
              (Inl (HTTPException HTTP_404_NOT_FOUND
                      (''Student with ID '' @ str_int (student_id e) @ '' not found'') []), st)) \<and>
         (Some (VInt (student_id e)) \<in> set (ids_of (students_db st)) \<and>
          Some (VInt (course_id e)) \<notin> set (ids_of (courses_db st)) \<longrightarrow>
            add_enrollment st e =
              (Inl (HTTPException HTTP_404_NOT_FOUND
                      (''Course with ID '' @ str_int (course_id e) @ '' not found'') []), st)) \<and>
         (Some (VInt (student_id e)) \<in> set (ids_of (students_db st)) \<and>
          Some (VInt (course_id e)) \<in> set (ids_of (courses_db st)) \<longrightarrow>
            add_enrollment st e =
              (Inr (Record ((Enrollment_dict e)(''id'' \<mapsto> VInt (next_enrollment_id st)))),
               st\<lparr>enrollments_db :=
                     enrollments_db st @
                       [(Enrollment_dict e)(''id'' \<mapsto> VInt (next_enrollment_id st))],
                   next_enrollment_id := next_enrollment_id st + 1\<rparr>))"
proof -
  have "wf_state st"
    using assms by (simp add: wf_reachable)
  then show ?thesis
    by (simp add: add_enrollment_wf)
qed

theorem add_enrollment_checks_references_witness:
  "add_enrollment scenario_state \<lparr>enrollment_id_field = None, student_id = 99, course_id = 1\<rparr> =
     (Inl (HTTPException 404 ''Student with ID 99 not found'' []), scenario_state) \<and>
   add_enrollment scenario_state \<lparr>enrollment_id_field = None, student_id = 1, course_id = 42\<rparr> =
     (Inl (HTTPException 404 ''Course with ID 42 not found'' []), scenario_state) \<and>
   fst (add_enrollment scenario_state \<lparr>enrollment_id_field = Some 8, student_id = 1, course_id = 1\<rparr>) =
     Inr (Record [''student_id'' \<mapsto> VInt 1, ''course_id'' \<mapsto> VInt 1, ''id'' \<mapsto> VInt 1]) \<and>
   ids_of (enrollments_db (snd (add_enrollment scenario_state
     \<lparr>enrollment_id_field = Some 8, student_id = 1, course_id = 1\<rparr>))) = [Some (VInt 1)]"
  using add_enrollment_checks_references
          [of scenario_state Map.empty scenario_requests
              "\<lparr>enrollment_id_field = None, student_id = 99, course_id = 1\<rparr>"]
        add_enrollment_checks_references
          [of scenario_state Map.empty scenario_requests
              "\<lparr>enrollment_id_field = None, student_id = 1, course_id = 42\<rparr>"]
        add_enrollment_checks_references
          [of scenario_state Map.empty scenario_requests
              "\<lparr>enrollment_id_field = Some 8, student_id = 1, course_id = 1\<rparr>"]
  by (simp add: scenario_state_def [symmetric] scenario_ids str_int_def digit_char_def
        ids_of_def Enrollment_dict_def optional_int_def scenario_state_eq)

text \<open>
  Claim C8. In every reachable state and for each of the three collections, deleting an
  id that no stored record carries fails with the 404 error of that collection and
  returns the state unchanged; and directly after a delete of an id has succeeded, a
  second delete of the same id fails with that 404 error.
\<close>

theorem delete_missing_not_found:
  assumes "st = run env init_state rqs"
  shows "(Some (VInt i) \<notin> set (ids_of (students_db st)) \<longrightarrow>
            delete_student st i =
              (Inl (HTTPException HTTP_404_NOT_FOUND ''Student not found'' []), st)) \<and>
         (\<forall>st'. delete_student st i = (Inr NoContent, st') \<longrightarrow>
            delete_student st' i =
              (Inl (HTTPException HTTP_404_NOT_FOUND ''Student not found'' []), st')) \<and>
         (Some (VInt i) \<notin> set (ids_of (courses_db st)) \<longrightarrow>
            delete_course st i =
              (Inl (HTTPException HTTP_404_NOT_FOUND ''Course not found'' []), st)) \<and>
         (\<forall>st'. delete_course st i = (Inr NoContent, st') \<longrightarrow>
            delete_course st' i =
              (Inl (HTTPException HTTP_404_NOT_FOUND ''Course not found'' []), st')) \<and>
         (Some (VInt i) \<notin> set (ids_of (enrollments_db st)) \<longrightarrow>
            delete_enrollment st i =
              (Inl (HTTPException HTTP_404_NOT_FOUND ''Enrollment not found'' []), st)) \<and>
         (\<forall>st'. delete_enrollment st i = (Inr NoContent, st') \<longrightarrow>
            delete_enrollment st' i =
              (Inl (HTTPException HTTP_404_NOT_FOUND ''Enrollment not found'' []), st'))"
proof -
  have wf: "wf_state st"
    using assms by (simp add: wf_reachable)
  show ?thesis
    using delete_student_twice [OF wf] delete_course_twice [OF wf] delete_enrollment_twice [OF wf]
    by (simp add: delete_student_wf [OF wf] delete_course_wf [OF wf] delete_enrollment_wf [OF wf])
qed

theorem delete_missing_not_found_witness:
  "delete_student scenario_state 7 =
     (Inl (HTTPException 404 ''Student not found'' []), scenario_state) \<and>
   delete_enrollment scenario_state 1 =
     (Inl (HTTPException 404 ''Enrollment not found'' []), scenario_state) \<and>
   fst (delete_course scenario_state 1) = Inr NoContent \<and>
   courses_db (snd (delete_course scenario_state 1)) = [] \<and>
   delete_course (snd (delete_course scenario_state 1)) 1 =
     (Inl (HTTPException 404 ''Course not found'' []), snd (delete_course scenario_state 1))"
proof -
  have succeeded: "fst (delete_course scenario_state 1) = Inr NoContent"
    by (simp add: delete_course_wf [OF scenario_wf] scenario_ids)
  then have first: "delete_course scenario_state 1 =
                      (Inr NoContent, snd (delete_course scenario_state 1))"
    by (metis prod.collapse)
  have emptied: "courses_db (snd (delete_course scenario_state 1)) = []"
    by (simp add: delete_course_wf [OF scenario_wf] scenario_dbs ids_of_def)
  have missing:
    "delete_student scenario_state 7 =
       (Inl (HTTPException 404 ''Student not found'' []), scenario_state)"
    "delete_enrollment scenario_state 1 =
       (Inl (HTTPException 404 ''Enrollment not found'' []), scenario_state)"
    using delete_missing_not_found [OF scenario_state_def, of 7]
          delete_missing_not_found [OF scenario_state_def, of 1]
    by (simp_all add: scenario_ids)
  have "\<forall>st'. delete_course scenario_state 1 = (Inr NoContent, st') \<longrightarrow>
          delete_course st' 1 = (Inl (HTTPException 404 ''Course not found'' []), st')"
    using delete_missing_not_found [OF scenario_state_def, of 1] by blast
  then have again:
    "delete_course (snd (delete_course scenario_state 1)) 1 =
       (Inl (HTTPException 404 ''Course not found'' []), snd (delete_course scenario_state 1))"
    using first by blast
  show ?thesis
    using missing again succeeded emptied by simp
qed

text \<open>
  Claim C1. In every reachable state, for every stored student record (and likewise
  every stored course record) and every update payload, updating by the record's id
  succeeds and replaces that record, in place, by a merged record: its id is the stored
  id whatever id the payload carries, every field that the payload did not set
  explicitly keeps its stored value, and every other field that the payload set
  explicitly has the payload's value. The other records are untouched.
\<close>

theorem update_merges_present_fields:
  assumes "st = run env init_state rqs"
  shows "(students_db st = pre @ r # post \<and> r ''id'' = Some (VInt i) \<longrightarrow>
            (\<exists>r'. update_student st i p =
                     (Inr (Record r'), st\<lparr>students_db := pre @ r' # post\<rparr>) \<and>
                  r' ''id'' = r ''id'' \<and>
                  (\<forall>k. k \<notin> student_fields_set p \<longrightarrow> r' k = r k) \<and>
                  (\<forall>k v. k \<in> student_fields_set p \<and> k \<noteq> ''id'' \<and> Student_dict p k = Some v
                     \<longrightarrow> r' k = Some v))) \<and>
         (courses_db st = pre @ r # post \<and> r ''id'' = Some (VInt i) \<longrightarrow>
            (\<exists>r'. update_course st i q =
                     (Inr (Record r'), st\<lparr>courses_db := pre @ r' # post\<rparr>) \<and>
                  r' ''id'' = r ''id'' \<and>
                  (\<forall>k. k \<notin> course_fields_set q \<longrightarrow> r' k = r k) \<and>
                  (\<forall>k v. k \<in> course_fields_set q \<and> k \<noteq> ''id'' \<and> Course_dict q k = Some v
                     \<longrightarrow> r' k = Some v)))"
proof -
  have wf: "wf_state st"
    using assms by (simp add: wf_reachable)
  have student: "\<exists>r'. update_student st i p =
                     (Inr (Record r'), st\<lparr>students_db := pre @ r' # post\<rparr>) \<and>
                  r' ''id'' = r ''id'' \<and>
                  (\<forall>k. k \<notin> student_fields_set p \<longrightarrow> r' k = r k) \<and>
                  (\<forall>k v. k \<in> student_fields_set p \<and> k \<noteq> ''id'' \<and> Student_dict p k = Some v
                     \<longrightarrow> r' k = Some v)"
    if "students_db st = pre @ r # post" and "r ''id'' = Some (VInt i)"
    unfolding update_student_wf [OF wf that] Student_dict_exclude_unset_def
    by (intro exI [of _ "r ++ drop_id (Student_dict p |` student_fields_set p)"] conjI allI impI)
       (simp_all add: merged_fields)
  have course: "\<exists>r'. update_course st i q =
                     (Inr (Record r'), st\<lparr>courses_db := pre @ r' # post\<rparr>) \<and>
                  r' ''id'' = r ''id'' \<and>
                  (\<forall>k. k \<notin> course_fields_set q \<longrightarrow> r' k = r k) \<and>
                  (\<forall>k v. k \<in> course_fields_set q \<and> k \<noteq> ''id'' \<and> Course_dict q k = Some v
                     \<longrightarrow> r' k = Some v)"
    if "courses_db st = pre @ r # post" and "r ''id'' = Some (VInt i)"
    unfolding update_course_wf [OF wf that] Course_dict_exclude_unset_def
    by (intro exI [of _ "r ++ drop_id (Course_dict q |` course_fields_set q)"] conjI allI impI)
       (simp_all add: merged_fields)
  show ?thesis
    using student course by blast
qed

theorem update_merges_present_fields_witness:
  "\<exists>r'. update_student scenario_state 1
            \<lparr>student_id_field = Some 99, major = ''Math'', email = ''a@b.com'',
             student_fields_set = {''id'', ''major'', ''email''}\<rparr> =
            (Inr (Record r'), scenario_state\<lparr>students_db := [r']\<rparr>) \<and>
         r' ''id'' = Some (VInt 1) \<and>
         r' ''major'' = Some (VStr ''Math'') \<and>
         r' ''email'' = Some (VStr ''a@b.com'')"
proof -
  let ?r = "(Student_dict cs_student)(''id'' \<mapsto> VInt 1)"
  let ?p = "\<lparr>student_id_field = Some 99, major = ''Math'', email = ''a@b.com'',
             student_fields_set = {''id'', ''major'', ''email''}\<rparr>"
  have stored: "students_db scenario_state = [] @ ?r # [] \<and> ?r ''id'' = Some (VInt 1)"
    by (simp add: scenario_dbs)
  from update_merges_present_fields
         [OF scenario_state_def, where pre = "[]" and post = "[]" and r = ?r and i = 1 and p = ?p]
       stored
  obtain r' where
    upd: "update_student scenario_state 1 ?p =
            (Inr (Record r'), scenario_state\<lparr>students_db := [] @ r' # []\<rparr>)" and
    kept: "r' ''id'' = ?r ''id''" and
    given: "\<forall>k v. k \<in> student_fields_set ?p \<and> k \<noteq> ''id'' \<and> Student_dict ?p k = Some v
              \<longrightarrow> r' k = Some v"
    by blast
  have major: "r' ''major'' = Some (VStr ''Math'')"
    using given [rule_format, of "''major''" "VStr ''Math''"] by (simp add: Student_dict_def)
  have email: "r' ''email'' = Some (VStr ''a@b.com'')"
    using given [rule_format, of "''email''" "VStr ''a@b.com''"] by (simp add: Student_dict_def)
  show ?thesis
    using upd kept major email by (intro exI [of _ r']) simp
qed

text \<open>
  Claim C6. Each collection's counter starts at 1. No request ever lowers it; a request
  changes it only if it is a create on that collection, and then by exactly one; a
  delete request leaves every counter as it was. A successful create is assigned the
  current counter value, so after any further requests (deletes included) a later
  successful create on the same collection is assigned a strictly larger id: no id is
  assigned twice.
\<close>

theorem counters_never_decrease:
  "counter c init_state = 1 \<and>
   counter c st \<le> counter c (snd (handle env st rq)) \<and>
   (counter c (snd (handle env st rq)) \<noteq> counter c st \<longrightarrow>
      created_in (req_op rq) = Some c \<and>
      counter c (snd (handle env st rq)) = counter c st + 1) \<and>
   (is_delete (req_op rq) \<longrightarrow> counter c (snd (handle env st rq)) = counter c st) \<and>
   (handle env st rq = (Inr (Record a), st1) \<and> created_in (req_op rq) = Some c \<and>
    handle env (run env st1 rqs) rq' = (Inr (Record b), st2) \<and>
    created_in (req_op rq') = Some c \<longrightarrow>
      (\<exists>i j. a ''id'' = Some (VInt i) \<and> b ''id'' = Some (VInt j) \<and> i < j))"
proof -
  have start: "counter c init_state = 1"
    by (cases c) (simp_all add: init_state_def)
  have fresh: "\<exists>i j. a ''id'' = Some (VInt i) \<and> b ''id'' = Some (VInt j) \<and> i < j"
    if first: "handle env st rq = (Inr (Record a), st1)" "created_in (req_op rq) = Some c"
      and later: "handle env (run env st1 rqs) rq' = (Inr (Record b), st2)"
        "created_in (req_op rq') = Some c"
  proof -
    have a: "a ''id'' = Some (VInt (counter c st))" and up: "counter c st1 = counter c st + 1"
      using created_record [OF first] by simp_all
    have b: "b ''id'' = Some (VInt (counter c (run env st1 rqs)))"
      using created_record [OF later] by simp
    have "counter c st < counter c (run env st1 rqs)"
      using run_counter_mono [of c st1 env rqs] up by simp
    then show ?thesis
      using a b by blast
  qed
  have step: "counter c (snd (handle env st rq)) \<noteq> counter c st \<longrightarrow>
      created_in (req_op rq) = Some c \<and>
      counter c (snd (handle env st rq)) = counter c st + 1"
    using handle_counter [of c env st rq] by (rule disjE) simp_all
  have del: "is_delete (req_op rq) \<longrightarrow> counter c (snd (handle env st rq)) = counter c st"
    by (rule impI) (rule delete_keeps_counter)
  have reuse: "handle env st rq = (Inr (Record a), st1) \<and> created_in (req_op rq) = Some c \<and>
    handle env (run env st1 rqs) rq' = (Inr (Record b), st2) \<and>
    created_in (req_op rq') = Some c \<longrightarrow>
      (\<exists>i j. a ''id'' = Some (VInt i) \<and> b ''id'' = Some (VInt j) \<and> i < j)"
  proof (rule impI, elim conjE)
    assume "handle env st rq = (Inr (Record a), st1)" "created_in (req_op rq) = Some c"
      "handle env (run env st1 rqs) rq' = (Inr (Record b), st2)" "created_in (req_op rq') = Some c"
    then show "\<exists>i j. a ''id'' = Some (VInt i) \<and> b ''id'' = Some (VInt j) \<and> i < j"
      by (rule fresh)
  qed
  show ?thesis
    by (intro conjI start handle_counter_mono step del reuse)
qed

theorem counters_never_decrease_witness:
  "counter Students init_state = 1 \<and>
   handle Map.empty init_state (as_admin (AddStudent cs_student)) =
     (Inr (Record ((Student_dict cs_student)(''id'' \<mapsto> VInt 1))),
      init_state\<lparr>students_db := [(Student_dict cs_student)(''id'' \<mapsto> VInt 1)],
                 next_student_id := 2\<rparr>) \<and>
   run Map.empty
     (init_state\<lparr>students_db := [(Student_dict cs_student)(''id'' \<mapsto> VInt 1)],
                 next_student_id := 2\<rparr>)
     [as_admin (DeleteStudent 1)] =
     init_state\<lparr>students_db := [], next_student_id := 2\<rparr> \<and>
   handle Map.empty (init_state\<lparr>students_db := [], next_student_id := 2\<rparr>)
       (as_admin (AddStudent cs_student)) =
     (Inr (Record ((Student_dict cs_student)(''id'' \<mapsto> VInt 2))),
      init_state\<lparr>students_db := [(Student_dict cs_student)(''id'' \<mapsto> VInt 2)],
                 next_student_id := 3\<rparr>) \<and>
   (\<exists>i j. ((Student_dict cs_student)(''id'' \<mapsto> VInt 1)) ''id'' = Some (VInt i) \<and>
          ((Student_dict cs_student)(''id'' \<mapsto> VInt 2)) ''id'' = Some (VInt j) \<and> i < j)"
proof -
  let ?a = "(Student_dict cs_student)(''id'' \<mapsto> VInt 1)"
  let ?b = "(Student_dict cs_student)(''id'' \<mapsto> VInt 2)"
  let ?s1 = "init_state\<lparr>students_db := [?a], next_student_id := 2\<rparr>"
  let ?s2 = "init_state\<lparr>students_db := [?b], next_student_id := 3\<rparr>"
  let ?add = "as_admin (AddStudent cs_student)"
  have first: "handle Map.empty init_state ?add = (Inr (Record ?a), ?s1)"
    by (simp add: handle_def as_admin_passes as_admin_op add_student_def Let_def init_state_def)
  have mid: "run Map.empty ?s1 [as_admin (DeleteStudent 1)] =
               init_state\<lparr>students_db := [], next_student_id := 2\<rparr>"
    by (simp add: handle_def as_admin_passes as_admin_op delete_student_def Let_def
          getitem_def init_state_def)
  have second: "handle Map.empty (init_state\<lparr>students_db := [], next_student_id := 2\<rparr>) ?add =
                  (Inr (Record ?b), ?s2)"
    by (simp add: handle_def as_admin_passes as_admin_op add_student_def Let_def init_state_def)
  have kinds: "created_in (req_op ?add) = Some Students"
    by (simp add: as_admin_op)
  show ?thesis
    using counters_never_decrease
            [of Students init_state Map.empty ?add ?a ?s1 "[as_admin (DeleteStudent 1)]" ?add ?b ?s2]
          first mid second kinds
    by (simp del: fun_upd_apply)
qed




end
